theory Spec2Isabelle
  imports Complex_Main
begin

section \<open>Numbers\<close>

text \<open>
  The renderer is TypeScript: every \<^verbatim>\<open>number\<close> is an IEEE 754 double. A finite double is a
  real number; \<open>number\<close> is the type of the finite inputs. The result of an operation is a
  \<open>double\<close>: the exact result rounded to the nearest double (\<open>fl\<close>), or not finite (NaN or
  an infinity). In this program a value that is not finite stays not finite through
  every operation applied to it, so the two kinds need not be told apart; minus zero is
  identified with zero, which no result below depends on.
\<close>

type_synonym number = real

datatype double = Finite number | NotFinite

text \<open>Rounding to an integer, a tie to the even one.\<close>

definition round_half_even :: "real \<Rightarrow> int" where
  "round_half_even y =
     (let n = \<lfloor>y\<rfloor>; r = y - of_int n
      in if r < 1 / 2 then n else if 1 / 2 < r then n + 1 else if even n then n else n + 1)"

definition pow2 :: "int \<Rightarrow> real" where
  "pow2 k = (if 0 \<le> k then 2 ^ nat k else 1 / 2 ^ nat (- k))"

definition overflow_threshold :: real where
  "overflow_threshold = 2 ^ 1024"

text \<open>
  Round to nearest, ties to even, with 53 significant bits: for \<open>2^e \<le> |x| < 2^(e+1)\<close> the
  doubles around \<open>x\<close> are the multiples of \<open>2^(e-52)\<close>; below \<open>2^-1022\<close> (subnormal
  numbers) they are the multiples of \<open>2^-1074\<close>; a result of magnitude \<open>2^1024\<close> or more
  overflows.
\<close>

definition fl :: "real \<Rightarrow> double" where
  "fl x =
     (if x = 0 then Finite 0
      else
        (let e = max \<lfloor>log 2 \<bar>x\<bar>\<rfloor> (- 1022);
             q = pow2 (e - 52);
             r = of_int (round_half_even (x / q)) * q
         in if \<bar>r\<bar> < overflow_threshold then Finite r else NotFinite))"

text \<open>
  \<^verbatim>\<open>a * b\<close> on two finite numbers, \<^verbatim>\<open>a + b\<close> on two results, and \<^verbatim>\<open>a / b\<close> of a result by a
  finite number: a division by zero does not throw, it gives NaN or an infinity.
\<close>

definition js_mul :: "number \<Rightarrow> number \<Rightarrow> double" where
  "js_mul a b = fl (a * b)"

fun js_add :: "double \<Rightarrow> double \<Rightarrow> double" where
  "js_add (Finite a) (Finite b) = fl (a + b)"
| "js_add _ _ = NotFinite"

fun js_div :: "double \<Rightarrow> number \<Rightarrow> double" where
  "js_div (Finite a) b = (if b = 0 then NotFinite else fl (a / b))"
| "js_div NotFinite b = NotFinite"

text \<open>
  \<^verbatim>\<open>Math.round\<close> gives the nearest integer and rounds a tie towards plus infinity, so
  \<^verbatim>\<open>Math.round(2.5)\<close> is 3 and \<^verbatim>\<open>Math.round(-2.5)\<close> is -2. On a double the result is exact.
\<close>

fun Math_round :: "double \<Rightarrow> double" where
  "Math_round (Finite x) = Finite (of_int \<lfloor>x + 1 / 2\<rfloor>)"
| "Math_round NotFinite = NotFinite"

text \<open>
  The remainder \<^verbatim>\<open>a % b\<close> keeps the sign of the dividend and is exact; it is only used
  with the divisors 10 and 5.
\<close>

definition trunc :: "number \<Rightarrow> int" where
  "trunc x = (if 0 \<le> x then \<lfloor>x\<rfloor> else \<lceil>x\<rceil>)"

definition js_rem :: "number \<Rightarrow> number \<Rightarrow> number" where
  "js_rem a b = a - b * of_int (trunc (a / b))"

section \<open>JSON values\<close>

text \<open>
  What \<^verbatim>\<open>express.json()\<close> hands to a handler: a parsed JSON value. An object is the list
  of its properties, each key once. A number that \<^verbatim>\<open>JSON.parse\<close> reads is finite or, for
  a literal such as \<^verbatim>\<open>1e999\<close>, an infinity, never NaN.
\<close>

datatype json_value =
    JNull
  | JBool bool
  | JNumber double
  | JString string
  | JArray "json_value list"
  | JObject "(string \<times> json_value) list"




section \<open>The timeline types (remotion/types.ts)\<close>

text \<open>
  The interfaces as records. An optional field (\<^verbatim>\<open>audio_path?\<close>) is an \<open>option\<close>. Where two
  interfaces share a field name, the fields of the later record carry a prefix
  (\<open>slide_title\<close>, \<open>props_segments\<close>, \<open>resp_output_path\<close>). The numbers of a request
  are finite.
\<close>

record SlideContent =
  slide_title :: string
  bullets :: "string list"
  visual_prompt :: string

record TimelineSegment =
  segment_id :: string
  start_time_seconds :: number
  duration_seconds :: number
  slide :: SlideContent
  narration_text :: string
  audio_path :: "string option"
  image_path :: "string option"

record VideoStyle =
  backgroundColor :: string
  primaryColor :: string
  accentColor :: string
  fontFamily :: string

record RenderRequest =
  job_id :: string
  output_path :: string
  fps :: number
  width :: number
  height :: number
  title :: string
  total_duration_seconds :: number
  segments :: "TimelineSegment list"
  style :: "VideoStyle option"


record VideoCompositionProps =
  props_title :: string
  props_segments :: "TimelineSegment list"
  props_style :: VideoStyle

definition DEFAULT_STYLE :: VideoStyle where
  "DEFAULT_STYLE =
     \<lparr>backgroundColor = ''#FAFAFA'', primaryColor = ''#1A1A2E'',
      accentColor = ''#4A69BD'', fontFamily = ''Inter, system-ui, sans-serif''\<rparr>"

section \<open>The collaborators of the render module\<close>

text \<open>
  \<^verbatim>\<open>bundle\<close>, \<^verbatim>\<open>selectComposition\<close> and \<^verbatim>\<open>renderMedia\<close> belong to Remotion, the path
  functions to Node. They are parameters of the model. Each Remotion call either throws
  (\<open>Inl\<close>) or returns (\<open>Inr\<close>); JavaScript can throw any value, and the HTTP handler tells
  an \<^verbatim>\<open>Error\<close> object from anything else. \<^verbatim>\<open>renderMedia\<close> also reports a list of progress
  values to its \<^verbatim>\<open>onProgress\<close> callback before it returns or throws. \<open>dirname_global\<close> is
  the \<^verbatim>\<open>__dirname\<close> of a CommonJS module, \<open>import_meta_url\<close> the \<^verbatim>\<open>import.meta.url\<close> of an
  ES module.
\<close>

datatype thrown = Error string | NonError

record VideoConfig =
  comp_id :: string
  durationInFrames :: double
  comp_fps :: number
  comp_width :: number
  comp_height :: number

record RenderMediaOptions =
  composition :: VideoConfig
  serveUrl :: string
  codec :: string
  outputLocation :: string
  inputProps :: VideoCompositionProps

record Env =
  dirname_global :: string
  import_meta_url :: string
  fileURLToPath :: "string \<Rightarrow> string"
  path_dirname :: "string \<Rightarrow> string"
  path_resolve :: "string \<Rightarrow> string \<Rightarrow> string"
  "bundle" :: "string \<Rightarrow> thrown + string"
  selectComposition :: "string \<Rightarrow> string \<Rightarrow> VideoCompositionProps \<Rightarrow> thrown + VideoConfig"
  renderMedia :: "RenderMediaOptions \<Rightarrow> number list \<times> (thrown + unit)"

text \<open>The lines the module writes to the console, one constructor per template.\<close>

datatype log =
    StartingRender string nat
  | DurationLog string double double
  | BundleCreated string
  | RenderingVideo string
  | RenderProgress string double
  | RenderComplete string string
  | ReceivedRequest "json_value option"
  | RenderError "json_value option" thrown

section \<open>renderVideo (render/renderVideo.ts, two versions)\<close>

record RenderResult =
  outputPath :: string
  durationSeconds :: double

text \<open>
  \<^verbatim>\<open>segments.reduce((total, seg) => total + Math.round(seg.duration_seconds * fps), 0)\<close>:
  a product, a rounding to an integer and a sum, each in double arithmetic, from the left.
\<close>

definition totalDurationFrames :: "number \<Rightarrow> TimelineSegment list \<Rightarrow> double" where
  "totalDurationFrames f segs =
     foldl (\<lambda>total seg. js_add total (Math_round (js_mul (duration_seconds seg) f)))
       (Finite 0) segs"

text \<open>
  The first version (CommonJS): \<^verbatim>\<open>__dirname\<close> is the module's global, and progress is
  logged when \<^verbatim>\<open>progress % 10 < 0.01\<close>.
\<close>

definition onProgress :: "string \<Rightarrow> number \<Rightarrow> log list" where
  "onProgress jid progress =
     (if js_rem progress 10 < 1 / 100
      then [RenderProgress jid (Math_round (js_mul progress 100))] else [])"

definition renderVideo :: "Env \<Rightarrow> RenderRequest \<Rightarrow> log list \<times> (thrown + RenderResult)" where
  "renderVideo env request =
     (let style' = (case style request of None \<Rightarrow> DEFAULT_STYLE | Some s \<Rightarrow> s);
          log1 = [StartingRender (job_id request) (length (segments request))];
          total = totalDurationFrames (fps request) (segments request);
          log2 = log1 @ [DurationLog (job_id request) total (js_div total (fps request))]
      in case bundle env (path_resolve env (dirname_global env) ''../remotion/index.ts'') of
           Inl e \<Rightarrow> (log2, Inl e)
         | Inr bundleLocation \<Rightarrow>
             (let log3 = log2 @ [BundleCreated (job_id request)];
                  props = \<lparr>props_title = title request, props_segments = segments request,
                           props_style = style'\<rparr>
              in case selectComposition env bundleLocation ''TeacherTrainingVideo'' props of
                   Inl e \<Rightarrow> (log3, Inl e)
                 | Inr composition0 \<Rightarrow>
                     (let compositionWithDuration =
                            composition0\<lparr>durationInFrames := total, comp_fps := fps request,
                                         comp_width := width request, comp_height := height request\<rparr>;
                          log4 = log3 @ [RenderingVideo (job_id request)];
                          (reports, outcome) =
                            renderMedia env
                              \<lparr>composition = compositionWithDuration,
                               serveUrl = bundleLocation, codec = ''h264'',
                               outputLocation = output_path request, inputProps = props\<rparr>;
                          log5 = log4 @ concat (map (onProgress (job_id request)) reports)
                      in case outcome of
                           Inl e \<Rightarrow> (log5, Inl e)
                         | Inr _ \<Rightarrow>
                             (log5 @ [RenderComplete (job_id request) (output_path request)],
                              Inr \<lparr>outputPath = output_path request,
                                   durationSeconds = js_div total (fps request)\<rparr>))))"

text \<open>
  The second version (ES module): \<^verbatim>\<open>__dirname\<close> is computed from \<^verbatim>\<open>import.meta.url\<close>, and
  progress is logged when the rounded percentage is a multiple of 5 (which a percentage
  that is not finite is not).
\<close>

definition onProgress_esm :: "string \<Rightarrow> number \<Rightarrow> log list" where
  "onProgress_esm jid progress =
     (let percent = Math_round (js_mul progress 100)
      in case percent of
           Finite p \<Rightarrow> if js_rem p 5 = 0 then [RenderProgress jid percent] else []
         | NotFinite \<Rightarrow> [])"

definition renderVideo_esm :: "Env \<Rightarrow> RenderRequest \<Rightarrow> log list \<times> (thrown + RenderResult)" where
  "renderVideo_esm env request =
     (let dirname = path_dirname env (fileURLToPath env (import_meta_url env));
          style' = (case style request of None \<Rightarrow> DEFAULT_STYLE | Some s \<Rightarrow> s);
          log1 = [StartingRender (job_id request) (length (segments request))];
          total = totalDurationFrames (fps request) (segments request);
          log2 = log1 @ [DurationLog (job_id request) total (js_div total (fps request))]
      in case bundle env (path_resolve env dirname ''../remotion/index.ts'') of
           Inl e \<Rightarrow> (log2, Inl e)
         | Inr bundleLocation \<Rightarrow>
             (let log3 = log2 @ [BundleCreated (job_id request)];
                  props = \<lparr>props_title = title request, props_segments = segments request,
                           props_style = style'\<rparr>
              in case selectComposition env bundleLocation ''TeacherTrainingVideo'' props of
                   Inl e \<Rightarrow> (log3, Inl e)
                 | Inr composition0 \<Rightarrow>
                     (let compositionWithDuration =
                            composition0\<lparr>durationInFrames := total, comp_fps := fps request,
                                         comp_width := width request, comp_height := height request\<rparr>;
                          log4 = log3 @ [RenderingVideo (job_id request)];
                          (reports, outcome) =
                            renderMedia env
                              \<lparr>composition = compositionWithDuration,
                               serveUrl = bundleLocation, codec = ''h264'',
                               outputLocation = output_path request, inputProps = props\<rparr>;
                          log5 = log4 @ concat (map (onProgress_esm (job_id request)) reports)
                      in case outcome of
                           Inl e \<Rightarrow> (log5, Inl e)
                         | Inr _ \<Rightarrow>
                             (log5 @ [RenderComplete (job_id request) (output_path request)],
                              Inr \<lparr>outputPath = output_path request,
                                   durationSeconds = js_div total (fps request)\<rparr>))))"

text \<open>The progress lines, the one kind of line on which the two versions differ.\<close>

definition is_progress :: "log \<Rightarrow> bool" where
  "is_progress l = (case l of RenderProgress _ _ \<Rightarrow> True | _ \<Rightarrow> False)"

section \<open>The composition (remotion/Composition.tsx)\<close>

text \<open>
  The component returns an \<^verbatim>\<open>AbsoluteFill\<close> holding one \<^verbatim>\<open>Sequence\<close> per segment; the model
  keeps the list of Sequences, each with its two children: the \<^verbatim>\<open>Slide\<close> and, when
  \<^verbatim>\<open>segment.audio_path\<close> is truthy (present and not the empty string), an \<^verbatim>\<open>Audio\<close>. It is
  the element tree the component returns; what Remotion does with it is not modelled.
\<close>

record SlideProps =
  content :: SlideContent
  slide_style :: VideoStyle
  imagePath :: "string option"
  durationFrames :: double

record AudioProps =
  src :: string
  volume :: number

record Sequence =
  seq_key :: string
  seq_from :: double
  seq_durationInFrames :: double
  seq_name :: "nat \<times> string"
  seq_slide :: SlideProps
  seq_audio :: "AudioProps option"

text \<open>
  \<^verbatim>\<open>segments.map((segment, index) => ...)\<close> with the mutable \<^verbatim>\<open>currentFrame\<close> threaded
  through the calls (\<^verbatim>\<open>currentFrame += durationFrames\<close> is a double addition). \<open>seq_name\<close>
  keeps the two holes of the template \<^verbatim>\<open>Segment ${index + 1}: ${segment.slide.title}\<close>.
\<close>

fun map_segments ::
  "number \<Rightarrow> VideoStyle \<Rightarrow> double \<Rightarrow> nat \<Rightarrow> TimelineSegment list \<Rightarrow> Sequence list" where
  "map_segments f st currentFrame index [] = []"
| "map_segments f st currentFrame index (segment # rest) =
     (let startFrame = currentFrame;
          durationFrames' = Math_round (js_mul (duration_seconds segment) f)
      in \<lparr>seq_key = segment_id segment,
          seq_from = startFrame,
          seq_durationInFrames = durationFrames',
          seq_name = (index + 1, slide_title (slide segment)),
          seq_slide = \<lparr>content = slide segment, slide_style = st,
                       imagePath = image_path segment, durationFrames = durationFrames'\<rparr>,
          seq_audio = (case audio_path segment of
                         None \<Rightarrow> None
                       | Some p \<Rightarrow> if p = [] then None else Some \<lparr>src = p, volume = 1\<rparr>)\<rparr>
         # map_segments f st (js_add currentFrame durationFrames') (index + 1) rest)"

text \<open>The component's frame rate is its own constant: \<^verbatim>\<open>const fps = 30\<close>.\<close>

definition TeacherTrainingVideo :: "VideoCompositionProps \<Rightarrow> Sequence list" where
  "TeacherTrainingVideo props =
     (let fps = 30; currentFrame = Finite 0
      in map_segments fps (props_style props) currentFrame 0 (props_segments props))"

text \<open>The frame timing of a Sequence: where it starts and how long it lasts.\<close>

definition timing :: "Sequence \<Rightarrow> double \<times> double" where
  "timing q = (seq_from q, seq_durationInFrames q)"

section \<open>The slide (remotion/components/Slide.tsx)\<close>





section \<open>The HTTP endpoint (server.ts)\<close>






subsection \<open>Bodies that have the type\<close>










section \<open>The persisted schema (backend/migrations)\<close>

text \<open>
  The three migrations are SQL scripts for PostgreSQL. The model keeps what they declare:
  enum types, the columns of a table with type, NOT NULL, PRIMARY KEY and DEFAULT, and
  indexes (name, table, column, descending or not). Only statements are executed; a
  statement quoted in a comment is not.
\<close>

datatype sql_type = VARCHAR nat | TIMESTAMP | INTEGER | REAL | TEXT | JSONB | EnumType string

datatype sql_default = DefaultNow | DefaultString string | DefaultInt int

record column =
  col_name :: string
  col_type :: sql_type
  col_not_null :: bool
  col_primary_key :: bool
  col_default :: "sql_default option"

datatype statement =
    CreateEnum string "string list"
  | CreateTableIfNotExists string "column list"
  | CreateIndexIfNotExists string string string bool
  | AddColumnIfNotExists string column

record database =
  enums :: "string \<rightharpoonup> string list"
  tables :: "string \<rightharpoonup> column list"
  indexes :: "string \<rightharpoonup> string \<times> string \<times> bool"

definition empty_database :: database where
  "empty_database = \<lparr>enums = Map.empty, tables = Map.empty, indexes = Map.empty\<rparr>"

definition type_exists :: "database \<Rightarrow> sql_type \<Rightarrow> bool" where
  "type_exists db t = (case t of EnumType n \<Rightarrow> enums db n \<noteq> None | _ \<Rightarrow> True)"

text \<open>
  One statement. \<open>CreateEnum\<close> is the block \<^verbatim>\<open>DO $$ BEGIN CREATE TYPE ... AS ENUM (...);
  EXCEPTION WHEN duplicate_object THEN null; END $$\<close>: an existing type is left as it is.
  The \<^verbatim>\<open>IF NOT EXISTS\<close> forms skip what exists; a missing table, column or type is an
  error.
\<close>

fun exec :: "statement \<Rightarrow> database \<Rightarrow> string + database" where
  "exec (CreateEnum n members) db =
     (case enums db n of
        None \<Rightarrow> Inr (db\<lparr>enums := (enums db)(n \<mapsto> members)\<rparr>)
      | Some _ \<Rightarrow> Inr db)"
| "exec (CreateTableIfNotExists t cols) db =
     (case tables db t of
        Some _ \<Rightarrow> Inr db
      | None \<Rightarrow>
          if list_all (\<lambda>c. type_exists db (col_type c)) cols
          then Inr (db\<lparr>tables := (tables db)(t \<mapsto> cols)\<rparr>)
          else Inl ''type does not exist'')"
| "exec (CreateIndexIfNotExists i t c descending) db =
     (case indexes db i of
        Some _ \<Rightarrow> Inr db
      | None \<Rightarrow>
          (case tables db t of
             None \<Rightarrow> Inl ''relation does not exist''
           | Some cols \<Rightarrow>
               if c \<in> set (map col_name cols)
               then Inr (db\<lparr>indexes := (indexes db)(i \<mapsto> (t, c, descending))\<rparr>)
               else Inl ''column does not exist''))"
| "exec (AddColumnIfNotExists t c) db =
     (case tables db t of
        None \<Rightarrow> Inl ''relation does not exist''
      | Some cols \<Rightarrow>
          if col_name c \<in> set (map col_name cols) then Inr db
          else if type_exists db (col_type c)
          then Inr (db\<lparr>tables := (tables db)(t \<mapsto> cols @ [c])\<rparr>)
          else Inl ''type does not exist'')"

fun run :: "statement list \<Rightarrow> database \<Rightarrow> string + database" where
  "run [] db = Inr db"
| "run (st # rest) db = (case exec st db of Inl e \<Rightarrow> Inl e | Inr db' \<Rightarrow> run rest db')"

definition col :: "string \<Rightarrow> sql_type \<Rightarrow> column" where
  "col n t = \<lparr>col_name = n, col_type = t, col_not_null = False, col_primary_key = False,
              col_default = None\<rparr>"

definition migration_001 :: "statement list" where
  "migration_001 =
     [CreateEnum ''job_status'' [''pending'', ''processing'', ''completed'', ''failed''],
      CreateEnum ''job_stage'' [''extract'', ''generate'', ''images'', ''tts'', ''render''],
      CreateTableIfNotExists ''jobs''
        [(col ''id'' (VARCHAR 36))\<lparr>col_primary_key := True\<rparr>,
         (col ''created_at'' TIMESTAMP)\<lparr>col_not_null := True, col_default := Some DefaultNow\<rparr>,
         (col ''updated_at'' TIMESTAMP)\<lparr>col_not_null := True, col_default := Some DefaultNow\<rparr>,
         col ''completed_at'' TIMESTAMP,
         (col ''status'' (EnumType ''job_status''))
           \<lparr>col_not_null := True, col_default := Some (DefaultString ''pending'')\<rparr>,
         col ''current_stage'' (EnumType ''job_stage''),
         (col ''stage_progress'' INTEGER)\<lparr>col_default := Some (DefaultInt 0)\<rparr>,
         (col ''original_filename'' (VARCHAR 255))\<lparr>col_not_null := True\<rparr>,
         (col ''pdf_path'' (VARCHAR 512))\<lparr>col_not_null := True\<rparr>,
         col ''timeline_path'' (VARCHAR 512),
         col ''audio_path'' (VARCHAR 512),
         col ''video_path'' (VARCHAR 512),
         col ''video_duration_seconds'' REAL,
         col ''slide_count'' INTEGER,
         col ''error_message'' TEXT,
         col ''error_stage'' (EnumType ''job_stage''),
         (col ''retry_count'' INTEGER)\<lparr>col_default := Some (DefaultInt 0)\<rparr>],
      CreateIndexIfNotExists ''idx_jobs_status'' ''jobs'' ''status'' False,
      CreateIndexIfNotExists ''idx_jobs_created_at'' ''jobs'' ''created_at'' True]"

definition migration_002 :: "statement list" where
  "migration_002 =
     [AddColumnIfNotExists ''jobs'' (col ''stage_started_at'' TIMESTAMP),
      AddColumnIfNotExists ''jobs''
        ((col ''stage_durations'' JSONB)\<lparr>col_default := Some (DefaultString ''{}'')\<rparr>)]"

text \<open>
  The third migration has one statement. Its \<^verbatim>\<open>ALTER TYPE job_status ADD VALUE IF NOT
  EXISTS 'cancelled'\<close> stands in a comment ("for existing PostgreSQL installations,
  run: ...") and is not part of the script.
\<close>

definition migration_003 :: "statement list" where
  "migration_003 =
     [AddColumnIfNotExists ''jobs''
        ((col ''cancel_requested'' INTEGER)\<lparr>col_default := Some (DefaultInt 0)\<rparr>)]"

definition migrated :: "string + database" where
  "migrated = run (migration_001 @ migration_002 @ migration_003) empty_database"

text \<open>
  The flag column is an integer for SQLite's sake; the migration's comment gives the
  reading: 0 is false, 1 is true.
\<close>

definition sql_boolean :: "int \<Rightarrow> bool option" where
  "sql_boolean i = (if i = 0 then Some False else if i = 1 then Some True else None)"

text \<open>What the properties below read off a column: its type, NOT NULL, PRIMARY KEY and DEFAULT.\<close>

definition describe :: "string \<Rightarrow> string \<Rightarrow> (sql_type \<times> bool \<times> bool \<times> sql_default option) option" where
  "describe t n =
     (case migrated of
        Inl _ \<Rightarrow> None
      | Inr db \<Rightarrow>
          (case tables db t of
             None \<Rightarrow> None
           | Some cols \<Rightarrow>
               (case filter (\<lambda>c. col_name c = n) cols of
                  [c] \<Rightarrow> Some (col_type c, col_not_null c, col_primary_key c, col_default c)
                | _ \<Rightarrow> None)))"

definition enum_members :: "string \<Rightarrow> string list option" where
  "enum_members n = (case migrated of Inl _ \<Rightarrow> None | Inr db \<Rightarrow> enums db n)"

text \<open>The fields of a Job, as section 3 of the specification lists them.\<close>

definition job_fields :: "string list" where
  "job_fields =
     [''id'', ''status'', ''current_stage'', ''stage_progress'', ''created_at'',
      ''updated_at'', ''completed_at'', ''stage_started_at'', ''stage_durations'',
      ''original_filename'', ''pdf_path'', ''timeline_path'', ''audio_path'', ''video_path'',
      ''video_duration_seconds'', ''slide_count'', ''error_message'', ''error_stage'',
      ''retry_count'', ''cancel_requested'']"

definition column_names :: "string \<Rightarrow> string list option" where
  "column_names t =
     (case migrated of Inl _ \<Rightarrow> None | Inr db \<Rightarrow> map_option (map col_name) (tables db t))"

section \<open>The generate stage of the orchestrator\<close>

text \<open>
  The orchestrator is the Python backend; its code is not among the sources. This section
  follows sections 3, 4.3 and 4.4 of the specification.
\<close>

datatype JobStatus = Pending | Processing | Completed | Failed | Cancelled

datatype JobStage = Extract | Generate | Images | Tts | Render

text \<open>
  Modelled from the spec: the Job record of section 3 (the backend's job model is missing),
  with the fields the transitions of the generate stage read or write.
\<close>

record Job =
  job_status :: JobStatus
  current_stage :: "JobStage option"
  timeline_path :: "string option"
  error_message :: "string option"
  error_stage :: "JobStage option"
  retry_count :: nat
  cancel_requested :: bool

record StageError =
  retryable :: bool
  err_message :: string

record OrchestratorConfig =
  retry_ceiling :: nat
  min_total_duration :: number
  max_total_duration :: number

fun strictly_increasing :: "number list \<Rightarrow> bool" where
  "strictly_increasing [] = True"
| "strictly_increasing [x] = True"
| "strictly_increasing (x # y # rest) = (x < y \<and> strictly_increasing (y # rest))"

text \<open>
  Modelled from the spec: the validation of the generate executor (section 4.3; the
  backend's validator is missing): "segment count > 0, non-negative durations, strictly
  increasing start_time_seconds, total duration within a configured band".
\<close>

definition validate_timeline :: "OrchestratorConfig \<Rightarrow> TimelineSegment list \<Rightarrow> bool" where
  "validate_timeline cfg segs =
     (length segs > 0 \<and>
      list_all (\<lambda>seg. 0 \<le> duration_seconds seg) segs \<and>
      strictly_increasing (map start_time_seconds segs) \<and>
      min_total_duration cfg \<le> sum_list (map duration_seconds segs) \<and>
      sum_list (map duration_seconds segs) \<le> max_total_duration cfg)"

text \<open>
  Modelled from the spec: the generate executor (section 4.3; the backend's executor is
  missing), on the timeline its collaborator returned and the path it would store it at:
  "any validation failure is retryable=false".
\<close>

definition generate_executor ::
  "OrchestratorConfig \<Rightarrow> TimelineSegment list \<Rightarrow> string \<Rightarrow> StageError + string" where
  "generate_executor cfg timeline path =
     (if validate_timeline cfg timeline then Inr path
      else Inl \<lparr>retryable = False, err_message = ''timeline failed validation''\<rparr>)"

definition is_terminal :: "JobStatus \<Rightarrow> bool" where
  "is_terminal st = (st = Completed \<or> st = Failed \<or> st = Cancelled)"

text \<open>
  Modelled from the spec: one invocation of the orchestrator's transition algorithm
  (section 4.4, steps 1, 2, 4 and 5; the backend's orchestrator is missing) on a job whose
  next stage is generate. A terminal job is left alone; a requested cancellation is
  observed before the executor runs; a success records the timeline reference and
  advances to images; a retryable failure below the ceiling bumps \<open>retry_count\<close>; any other
  failure makes the job failed, with the error and its stage.
\<close>

definition invoke_generate ::
  "OrchestratorConfig \<Rightarrow> Job \<Rightarrow> TimelineSegment list \<Rightarrow> string \<Rightarrow> Job" where
  "invoke_generate cfg job timeline path =
     (if is_terminal (job_status job) then job
      else if cancel_requested job
      then job\<lparr>job_status := Cancelled, current_stage := None\<rparr>
      else
        (case generate_executor cfg timeline path of
           Inr ref \<Rightarrow>
             job\<lparr>job_status := Processing, current_stage := Some Images,
                 timeline_path := Some ref\<rparr>
         | Inl err \<Rightarrow>
             if retryable err \<and> retry_count job < retry_ceiling cfg
             then job\<lparr>retry_count := retry_count job + 1\<rparr>
             else job\<lparr>job_status := Failed, current_stage := None,
                      error_message := Some (err_message err),
                      error_stage := Some Generate\<rparr>))"

section \<open>The render stage of the orchestrator\<close>




section \<open>Concrete inputs\<close>

text \<open>A three-segment timeline with durations 5, 4 and 6 seconds, and requests built on it.\<close>

definition example_segment :: "string \<Rightarrow> number \<Rightarrow> number \<Rightarrow> TimelineSegment" where
  "example_segment sid start dur =
     \<lparr>segment_id = sid, start_time_seconds = start, duration_seconds = dur,
      slide = \<lparr>slide_title = ''Fractions'', bullets = [''Halves'', ''Quarters''],
               visual_prompt = ''A pie chart''\<rparr>,
      narration_text = ''Today we look at fractions.'',
      audio_path = Some (''audio/'' @ sid @ ''.mp3''),
      image_path = Some (''images/'' @ sid @ ''.png'')\<rparr>"

definition example_segments :: "TimelineSegment list" where
  "example_segments =
     [example_segment ''seg_001'' 0 5, example_segment ''seg_002'' 5 4,
      example_segment ''seg_003'' 9 6]"

definition example_request :: "number \<Rightarrow> RenderRequest" where
  "example_request f =
     \<lparr>job_id = ''job-1'', output_path = ''out/job-1.mp4'', fps = f, width = 1920,
      height = 1080, title = ''Fractions'', total_duration_seconds = 15,
      segments = example_segments, style = None\<rparr>"

definition other_request :: "number \<Rightarrow> RenderRequest" where
  "other_request f =
     \<lparr>job_id = ''job-2'', output_path = ''out/job-2.mp4'', fps = f, width = 1280,
      height = 720, title = ''Decimals'', total_duration_seconds = 99,
      segments = map (\<lambda>s. s\<lparr>audio_path := None\<rparr>) example_segments,
      style = Some DEFAULT_STYLE\<rparr>"

definition example_props :: VideoCompositionProps where
  "example_props =
     \<lparr>props_title = ''Fractions'', props_segments = example_segments,
      props_style = DEFAULT_STYLE\<rparr>"

text \<open>The double nearest to 29.97, the NTSC frame rate.\<close>

definition fps_ntsc :: number where
  "fps_ntsc = 1054475631502295 / 35184372088832"

text \<open>One segment of five seconds, and a request that asks for it at 60 frames per second.\<close>

definition five_seconds :: "TimelineSegment list" where
  "five_seconds = [example_segment ''seg_001'' 0 5]"

definition request_60 :: RenderRequest where
  "request_60 = (example_request 60)\<lparr>segments := five_seconds\<rparr>"







text \<open>An environment whose collaborators all succeed, and one whose render fails.\<close>

definition env_ok :: Env where
  "env_ok =
     \<lparr>dirname_global = ''/app/render'',
      import_meta_url = ''file:///app/render/renderVideo.js'',
      fileURLToPath = drop 7, path_dirname = take 11,
      path_resolve = (\<lambda>a b. a @ ''/'' @ b),
      bundle = (\<lambda>entry. Inr ''/tmp/bundle''),
      selectComposition = (\<lambda>url cid props.
        Inr \<lparr>comp_id = cid, durationInFrames = Finite 150, comp_fps = 30, comp_width = 1920,
             comp_height = 1080\<rparr>),
      renderMedia = (\<lambda>opts. ([0, 1 / 2, 1], Inr ()))\<rparr>"


text \<open>
  An environment whose \<^verbatim>\<open>renderMedia\<close> succeeds only when it is asked for \<open>frames\<close> frames
  at \<open>rate\<close> frames per second: a render that returns in it was asked for exactly that.
\<close>

definition env_expecting :: "double \<Rightarrow> number \<Rightarrow> Env" where
  "env_expecting frames rate =
     env_ok\<lparr>renderMedia := (\<lambda>opts.
       if durationInFrames (composition opts) = frames \<and> comp_fps (composition opts) = rate
       then ([], Inr ()) else ([], Inl (Error ''unexpected composition'')))\<rparr>"




text \<open>A job about to run generate, and a configuration with the band 300 to 600 seconds.\<close>

definition example_job :: Job where
  "example_job =
     \<lparr>job_status = Processing, current_stage = Some Generate, timeline_path = None,
      error_message = None, error_stage = None, retry_count = 0, cancel_requested = False\<rparr>"

definition example_config :: OrchestratorConfig where
  "example_config = \<lparr>retry_ceiling = 3, min_total_duration = 300, max_total_duration = 600\<rparr>"


section \<open>Properties of the double arithmetic\<close>

lemma pow2_powr: "pow2 k = 2 powr of_int k"
  by (simp add: pow2_def powr_real_of_int inverse_eq_divide)

lemma pow2_pos: "0 < pow2 k"
  by (simp add: pow2_powr)

lemma pow2_add: "pow2 (a + b) = pow2 a * pow2 b"
  by (simp add: pow2_powr powr_add)

lemma pow2_mono: "a \<le> b \<Longrightarrow> pow2 a \<le> pow2 b"
  by (simp add: pow2_powr)

lemma pow2_53: "pow2 53 = 2 ^ 53"
  by (simp add: pow2_def)

lemma pow2_below_threshold: "e \<le> 1023 \<Longrightarrow> pow2 e < overflow_threshold"
proof -
  assume "e \<le> 1023"
  then have "pow2 e \<le> pow2 1023" by (rule pow2_mono)
  also have "pow2 1023 < overflow_threshold"
    by (simp add: pow2_def overflow_threshold_def)
  finally show ?thesis .
qed

lemma round_half_even_of_int: "round_half_even (of_int n) = n"
  by (simp add: round_half_even_def)

lemma round_half_even_le: "y \<le> of_int n \<Longrightarrow> round_half_even y \<le> n"
  by (auto simp: round_half_even_def Let_def) linarith+

lemma round_half_even_ge: "of_int n \<le> y \<Longrightarrow> n \<le> round_half_even y"
  by (auto simp: round_half_even_def Let_def) linarith+

text \<open>With the binade of \<open>x\<close> known, \<open>fl\<close> is a rounding of a quotient.\<close>

lemma fl_eval:
  assumes "pow2 e \<le> \<bar>x\<bar>" "\<bar>x\<bar> < pow2 (e + 1)" "- 1022 \<le> e"
  shows "fl x =
     (let q = pow2 (e - 52); r = of_int (round_half_even (x / q)) * q
      in if \<bar>r\<bar> < overflow_threshold then Finite r else NotFinite)"
proof -
  have pos: "0 < \<bar>x\<bar>"
    using assms(1) pow2_pos [of e] by linarith
  then have "\<lfloor>log 2 \<bar>x\<bar>\<rfloor> = e"
    using assms(1,2) by (simp add: floor_log_eq_powr_iff pow2_powr)
  then show ?thesis
    using pos assms(3) by (simp add: fl_def Let_def max_def)
qed

lemma fl_finite_eval:
  assumes "pow2 e \<le> \<bar>x\<bar>" "\<bar>x\<bar> < pow2 (e + 1)" "- 1022 \<le> e" "e \<le> 1022"
  shows "fl x = Finite (of_int (round_half_even (x / pow2 (e - 52))) * pow2 (e - 52))"
proof -
  define q where "q = pow2 (e - 52)"
  have q0: "0 < q" by (simp add: q_def pow2_pos)
  have "53 + (e - 52) = e + 1" by simp
  then have split: "pow2 (e + 1) = 2 ^ 53 * q"
    using pow2_add [of 53 "e - 52"] by (simp only: q_def pow2_53)
  then have "\<bar>x\<bar> < 2 ^ 53 * q" using assms(2) by simp
  then have "\<bar>x / q\<bar> < 2 ^ 53"
    using q0 by (simp add: field_simps abs_mult)
  then have "x / q \<le> 2 ^ 53" "- (2 ^ 53) \<le> x / q"
    by linarith+
  then have "x / q \<le> of_int (2 ^ 53)" "of_int (- (2 ^ 53)) \<le> x / q"
    by simp_all
  then have "round_half_even (x / q) \<le> 2 ^ 53" "- (2 ^ 53) \<le> round_half_even (x / q)"
    using round_half_even_le round_half_even_ge by blast+
  then have "\<bar>round_half_even (x / q)\<bar> \<le> 2 ^ 53" by linarith
  then have "real_of_int \<bar>round_half_even (x / q)\<bar> \<le> real_of_int (2 ^ 53)"
    by (simp only: of_int_le_iff)
  then have "\<bar>real_of_int (round_half_even (x / q))\<bar> \<le> 2 ^ 53" by simp
  then have "\<bar>real_of_int (round_half_even (x / q)) * q\<bar> \<le> 2 ^ 53 * q"
    using q0 by (simp add: abs_mult)
  also have "\<dots> = pow2 (e + 1)" using split by simp
  also have "\<dots> < overflow_threshold"
    using assms(4) by (intro pow2_below_threshold) simp
  finally have "\<bar>real_of_int (round_half_even (x / q)) * q\<bar> < overflow_threshold" .
  then show ?thesis
    using fl_eval [OF assms(1-3)] by (simp add: Let_def q_def)
qed

text \<open>An integer below \<open>2^53\<close> in magnitude is a double.\<close>

lemma fl_of_int:
  assumes "\<bar>m\<bar> < 2 ^ 53"
  shows "fl (of_int m) = Finite (of_int m)"
proof (cases "m = 0")
  case True
  then show ?thesis by (simp add: fl_def)
next
  case False
  define e where "e = \<lfloor>log 2 \<bar>real_of_int m\<bar>\<rfloor>"
  have pos: "1 \<le> \<bar>real_of_int m\<bar>" using False by linarith
  have "real_of_int \<bar>m\<bar> < real_of_int (2 ^ 53)"
    using assms by (simp only: of_int_less_iff)
  then have lt: "\<bar>real_of_int m\<bar> < 2 ^ 53" by simp
  have e0: "0 \<le> e"
    unfolding e_def using pos by simp
  have "log 2 \<bar>real_of_int m\<bar> < 53"
    using pos lt by (simp add: log_less_iff)
  then have e52: "e \<le> 52"
    unfolding e_def by linarith
  have bounds: "pow2 e \<le> \<bar>real_of_int m\<bar>" "\<bar>real_of_int m\<bar> < pow2 (e + 1)"
    using pos floor_log_eq_powr_iff [of "\<bar>real_of_int m\<bar>" 2 e]
    by (simp_all add: e_def pow2_powr)
  define k where "k = nat (52 - e)"
  have q: "pow2 (e - 52) = 1 / 2 ^ k"
    using e52 by (cases "e = 52") (simp_all add: k_def pow2_def)
  have "real_of_int m / (1 / 2 ^ k) = of_int (m * 2 ^ k)" by simp
  then have r: "round_half_even (real_of_int m / (1 / 2 ^ k)) = m * 2 ^ k"
    by (simp only: round_half_even_of_int)
  have "fl (of_int m) =
      Finite (of_int (round_half_even (of_int m / pow2 (e - 52))) * pow2 (e - 52))"
    using bounds e0 e52 by (intro fl_finite_eval) simp_all
  also have "\<dots> = Finite (of_int (m * 2 ^ k) * (1 / 2 ^ k))"
    unfolding q r ..
  also have "\<dots> = Finite (of_int m)" by simp
  finally show ?thesis .
qed

lemma Math_round_of_int: "Math_round (Finite (of_int k)) = Finite (of_int k)"
  by simp

lemma js_mul_of_int:
  "\<bar>a * b\<bar> < 2 ^ 53 \<Longrightarrow> js_mul (of_int a) (of_int b) = Finite (of_int (a * b))"
  using fl_of_int [of "a * b"] by (simp add: js_mul_def)

lemma js_add_of_int:
  "\<bar>a + b\<bar> < 2 ^ 53 \<Longrightarrow> js_add (Finite (of_int a)) (Finite (of_int b)) = Finite (of_int (a + b))"
  using fl_of_int [of "a + b"] by simp

text \<open>
  Three products at 30 frames per second. The double nearest to 2.05 times 30 is just
  below 61.5 and rounds to 61 frames; the double nearest to 0.35 times 30 rounds to the
  double 10.5, hence to 11 frames, although the exact product is below 10.5.
\<close>

lemma frames_of_5: "Math_round (js_mul 5 30) = Finite 150"
  using js_mul_of_int [of 5 30] by simp

lemma frames_of_2_05:
  "Math_round (js_mul (2308094809027379 / 1125899906842624) 30) = Finite 61"
proof -
  have "fl (2308094809027379 / 1125899906842624 * 30) =
      Finite (8655355533852671 / 140737488355328)"
    by (subst fl_finite_eval [where e = 5])
      (simp_all add: pow2_def round_half_even_def Let_def)
  then show ?thesis by (simp add: js_mul_def)
qed

lemma frames_of_0_35:
  "Math_round (js_mul (3152519739159347 / 9007199254740992) 30) = Finite 11
   \<and> \<lfloor>3152519739159347 / 9007199254740992 * 30 + 1 / 2 :: real\<rfloor> = 10"
proof -
  have "fl (3152519739159347 / 9007199254740992 * 30) = Finite (21 / 2)"
    by (subst fl_finite_eval [where e = 3])
      (simp_all add: pow2_def round_half_even_def Let_def)
  then show ?thesis by (simp add: js_mul_def)
qed

section \<open>Properties of renderVideo\<close>

lemma totalDurationFrames_durations:
  "totalDurationFrames f segs =
     foldl (\<lambda>total d. js_add total (Math_round (js_mul d f))) (Finite 0)
       (map duration_seconds segs)"
  by (simp add: totalDurationFrames_def foldl_map)

text \<open>Integers whose magnitudes sum to less than \<open>2^53\<close> are added without rounding.\<close>

lemma foldl_js_add_exact:
  "map g ds = map (\<lambda>k. Finite (of_int k)) ks \<Longrightarrow> \<bar>a\<bar> + (\<Sum>k\<leftarrow>ks. \<bar>k\<bar>) < 2 ^ 53 \<Longrightarrow>
   foldl (\<lambda>total d. js_add total (g d)) (Finite (of_int a)) ds =
     Finite (of_int (a + sum_list ks))"
proof (induction ds arbitrary: a ks)
  case Nil
  then show ?case by simp
next
  case (Cons d ds)
  then obtain k rest where ks: "ks = k # rest" by (cases ks) auto
  with Cons.prems have g: "g d = Finite (of_int k)"
    and m: "map g ds = map (\<lambda>k. Finite (of_int k)) rest"
    and b: "\<bar>a\<bar> + \<bar>k\<bar> + (\<Sum>k\<leftarrow>rest. \<bar>k\<bar>) < 2 ^ 53"
    by simp_all
  have nonneg: "0 \<le> (\<Sum>k\<leftarrow>rest. \<bar>k\<bar>)"
    by (rule sum_list_nonneg) auto
  have "\<bar>a + k\<bar> < 2 ^ 53" using b nonneg by linarith
  then have step: "js_add (Finite (of_int a)) (g d) = Finite (of_int (a + k))"
    by (simp only: g js_add_of_int)
  have "\<bar>a + k\<bar> + (\<Sum>k\<leftarrow>rest. \<bar>k\<bar>) < 2 ^ 53" using b by linarith
  then have "foldl (\<lambda>total d. js_add total (g d)) (Finite (of_int (a + k))) ds =
      Finite (of_int (a + k + sum_list rest))"
    using Cons.IH [OF m] by blast
  then show ?case by (simp add: step ks add.assoc)
qed

lemma totalDurationFrames_exact:
  assumes "map (\<lambda>seg. Math_round (js_mul (duration_seconds seg) f)) segs =
      map (\<lambda>k. Finite (of_int k)) ks"
    and "(\<Sum>k\<leftarrow>ks. \<bar>k\<bar>) < 2 ^ 53"
  shows "totalDurationFrames f segs = Finite (of_int (sum_list ks))"
  using foldl_js_add_exact [of "\<lambda>seg. Math_round (js_mul (duration_seconds seg) f)" segs ks 0]
    assms by (simp add: totalDurationFrames_def)

lemma renderVideo_result:
  "snd (renderVideo env request) = Inr result \<Longrightarrow>
   result = \<lparr>outputPath = output_path request,
             durationSeconds =
               js_div (totalDurationFrames (fps request) (segments request)) (fps request)\<rparr>"
  by (auto simp: renderVideo_def Let_def split: sum.splits prod.splits)

lemma renderVideo_esm_result:
  "snd (renderVideo_esm env request) = Inr result \<Longrightarrow>
   result = \<lparr>outputPath = output_path request,
             durationSeconds =
               js_div (totalDurationFrames (fps request) (segments request)) (fps request)\<rparr>"
  by (auto simp: renderVideo_esm_def Let_def split: sum.splits prod.splits)

text \<open>With collaborators that succeed, both versions return.\<close>

lemma renderVideo_env_ok:
  "snd (renderVideo env_ok request) =
     Inr \<lparr>outputPath = output_path request,
          durationSeconds =
            js_div (totalDurationFrames (fps request) (segments request)) (fps request)\<rparr>"
  by (simp add: renderVideo_def env_ok_def Let_def)

lemma renderVideo_esm_env_ok:
  "snd (renderVideo_esm env_ok request) =
     Inr \<lparr>outputPath = output_path request,
          durationSeconds =
            js_div (totalDurationFrames (fps request) (segments request)) (fps request)\<rparr>"
  by (simp add: renderVideo_esm_def env_ok_def Let_def)

lemma example_durations: "map duration_seconds example_segments = [5, 4, 6]"
  by (simp add: example_segments_def example_segment_def)

text \<open>Durations 5, 4 and 6 at an integer frame rate: every operation is exact.\<close>

lemma total_5_4_6:
  assumes "map duration_seconds segs = [5, 4, 6]" "\<bar>k\<bar> \<le> 2 ^ 49"
  shows "totalDurationFrames (of_int k) segs = Finite (of_int (15 * k))"
proof -
  have "js_mul (of_int 5) (of_int k) = Finite (of_int (5 * k))"
    "js_mul (of_int 4) (of_int k) = Finite (of_int (4 * k))"
    "js_mul (of_int 6) (of_int k) = Finite (of_int (6 * k))"
    using assms(2) by (intro js_mul_of_int; simp)+
  then have r: "map (\<lambda>seg. Math_round (js_mul (duration_seconds seg) (of_int k))) segs =
      map (\<lambda>k. Finite (of_int k)) [5 * k, 4 * k, 6 * k]"
    using assms(1) by (auto simp: map_eq_Cons_conv)
  have "(\<Sum>j\<leftarrow>[5 * k, 4 * k, 6 * k]. \<bar>j\<bar>) < 2 ^ 53"
    using assms(2) by (simp add: abs_mult)
  from totalDurationFrames_exact [OF r this] show ?thesis by simp
qed

lemma total_30: "totalDurationFrames 30 example_segments = Finite 450"
  using total_5_4_6 [OF example_durations, of 30] by simp

lemma fl_15: "fl 15 = Finite 15"
proof -
  have "fl (of_int 15) = Finite (of_int 15)" by (rule fl_of_int) simp
  then show ?thesis by simp
qed

lemma quotient_15: "k \<noteq> 0 \<Longrightarrow> js_div (Finite (of_int (15 * k))) (of_int k) = Finite 15"
  by (simp add: fl_15)

lemma quotient_30: "js_div (Finite 450) 30 = Finite 15"
  by (simp add: fl_15)

text \<open>At the double nearest to 29.97 the products are exact and the quotient is rounded.\<close>

lemma total_ntsc: "totalDurationFrames fps_ntsc example_segments = Finite 450"
proof -
  have "fl (5 * fps_ntsc) = Finite (5272378157511475 / 35184372088832)"
    unfolding fps_ntsc_def
    by (subst fl_finite_eval [where e = 7]) (simp_all add: pow2_def round_half_even_def Let_def)
  moreover have "fl (4 * fps_ntsc) = Finite (1054475631502295 / 8796093022208)"
    unfolding fps_ntsc_def
    by (subst fl_finite_eval [where e = 6]) (simp_all add: pow2_def round_half_even_def Let_def)
  moreover have "fl (6 * fps_ntsc) = Finite (3163426894506885 / 17592186044416)"
    unfolding fps_ntsc_def
    by (subst fl_finite_eval [where e = 7]) (simp_all add: pow2_def round_half_even_def Let_def)
  ultimately have "map (\<lambda>seg. Math_round (js_mul (duration_seconds seg) fps_ntsc))
      example_segments = map (\<lambda>k. Finite (of_int k)) [150, 120, 180]"
    by (simp add: example_segments_def example_segment_def js_mul_def)
  from totalDurationFrames_exact [OF this] show ?thesis by simp
qed

lemma fps_ntsc_nonzero: "fps_ntsc \<noteq> 0"
  by (simp add: fps_ntsc_def)

lemma fl_450_ntsc: "fl (450 / fps_ntsc) = Finite (8452702003323003 / 562949953421312)"
  unfolding fps_ntsc_def
  by (subst fl_finite_eval [where e = 3]) (simp_all add: pow2_def round_half_even_def Let_def)

text \<open>
  C4, as amended. Whenever \<open>renderVideo\<close> returns, \<open>durationSeconds\<close> is the sum over the
  segments of \<open>round(duration_seconds * fps)\<close>, divided by \<open>fps\<close>, in double arithmetic: each
  product and the quotient are rounded to a double, and the sum is the exact sum of the
  rounded products when their magnitudes sum to less than \<open>2^53\<close>. For three segments of
  5, 4 and 6 seconds it is 15 when \<open>fps\<close> is a nonzero integer of magnitude at most \<open>2^49\<close>.
\<close>

theorem renderVideo_duration:
  "snd (renderVideo env request) = Inr result \<longrightarrow>
     durationSeconds result =
       js_div (totalDurationFrames (fps request) (segments request)) (fps request) \<and>
     (map (\<lambda>seg. Math_round (js_mul (duration_seconds seg) (fps request))) (segments request)
        = map (\<lambda>k. Finite (of_int k)) ks \<and> (\<Sum>k\<leftarrow>ks. \<bar>k\<bar>) < 2 ^ 53
        \<longrightarrow> durationSeconds result = js_div (Finite (of_int (sum_list ks))) (fps request)) \<and>
     (map duration_seconds (segments request) = [5, 4, 6] \<and> fps request = of_int k \<and> k \<noteq> 0
        \<and> \<bar>k\<bar> \<le> 2 ^ 49
        \<longrightarrow> durationSeconds result = Finite 15)"
proof (intro impI conjI)
  assume r: "snd (renderVideo env request) = Inr result"
  show d: "durationSeconds result =
       js_div (totalDurationFrames (fps request) (segments request)) (fps request)"
    using renderVideo_result [OF r] by simp
  {
    assume "map (\<lambda>seg. Math_round (js_mul (duration_seconds seg) (fps request)))
        (segments request) = map (\<lambda>k. Finite (of_int k)) ks \<and> (\<Sum>k\<leftarrow>ks. \<bar>k\<bar>) < 2 ^ 53"
    then have "totalDurationFrames (fps request) (segments request) =
        Finite (of_int (sum_list ks))"
      using totalDurationFrames_exact by blast
    then show "durationSeconds result = js_div (Finite (of_int (sum_list ks))) (fps request)"
      using d by simp
  }
  {
    assume h: "map duration_seconds (segments request) = [5, 4, 6] \<and> fps request = of_int k
      \<and> k \<noteq> 0 \<and> \<bar>k\<bar> \<le> 2 ^ 49"
    then have "totalDurationFrames (fps request) (segments request) = Finite (of_int (15 * k))"
      using total_5_4_6 [of "segments request" k] by simp
    then show "durationSeconds result = Finite 15"
      using d h quotient_15 [of k] by simp
  }
qed

theorem renderVideo_duration_witness:
  "snd (renderVideo env_ok (example_request 30)) =
     Inr \<lparr>outputPath = ''out/job-1.mp4'', durationSeconds = Finite 15\<rparr>
   \<and> map (\<lambda>seg. Math_round (js_mul (duration_seconds seg) (fps (example_request 30))))
       (segments (example_request 30)) = map (\<lambda>k. Finite (of_int k)) [150, 120, 180]
   \<and> (\<Sum>k\<leftarrow>[150, 120, 180 :: int]. \<bar>k\<bar>) < 2 ^ 53
   \<and> map duration_seconds (segments (example_request 30)) = [5, 4, 6]
   \<and> fps (example_request 30) = of_int 30 \<and> (30 :: int) \<noteq> 0 \<and> \<bar>30 :: int\<bar> \<le> 2 ^ 49
   \<and> durationSeconds \<lparr>outputPath = ''out/job-1.mp4'', durationSeconds = Finite 15\<rparr>
       = js_div (Finite (of_int (sum_list [150, 120, 180]))) (fps (example_request 30))"
proof -
  have r: "snd (renderVideo env_ok (example_request 30)) =
     Inr \<lparr>outputPath = ''out/job-1.mp4'', durationSeconds = Finite 15\<rparr>"
    by (simp add: renderVideo_env_ok) (simp add: example_request_def total_30 fl_15)
  have "js_mul 5 30 = Finite 150" "js_mul 4 30 = Finite 120" "js_mul 6 30 = Finite 180"
    using js_mul_of_int [of 5 30] js_mul_of_int [of 4 30] js_mul_of_int [of 6 30] by simp_all
  then have m: "map (\<lambda>seg. Math_round (js_mul (duration_seconds seg) (fps (example_request 30))))
       (segments (example_request 30)) = map (\<lambda>k. Finite (of_int k)) [150, 120, 180]"
    by (simp add: example_request_def example_segments_def example_segment_def)
  have d: "map duration_seconds (segments (example_request 30)) = [5, 4, 6]"
    by (simp add: example_request_def example_durations)
  have f: "fps (example_request 30) = of_int 30"
    by (simp add: example_request_def)
  show ?thesis
    using r m d f renderVideo_duration [of env_ok "example_request 30"
        "\<lparr>outputPath = ''out/job-1.mp4'', durationSeconds = Finite 15\<rparr>" "[150, 120, 180]" 30]
    by (simp add: fl_15)
qed

text \<open>
  C4 as stated fails: at 29.97 frames per second the three segments round to 150, 120
  and 180 frames, and 450 / 29.97 is 15.015..., not 15.
\<close>

theorem renderVideo_duration_counterexample:
  "map duration_seconds (segments (example_request fps_ntsc)) = [5, 4, 6]
   \<and> snd (renderVideo env_ok (example_request fps_ntsc)) =
       Inr \<lparr>outputPath = ''out/job-1.mp4'',
            durationSeconds = Finite (8452702003323003 / 562949953421312)\<rparr>
   \<and> Finite (8452702003323003 / 562949953421312) \<noteq> Finite 15"
  by (simp add: renderVideo_env_ok)
    (simp add: example_request_def total_ntsc fps_ntsc_nonzero fl_450_ntsc example_durations)

text \<open>
  C9. \<open>durationSeconds\<close> depends on \<open>fps\<close> and on the segments' \<open>duration_seconds\<close> only:
  two requests that agree on these get the same \<open>durationSeconds\<close> whenever
  \<open>renderVideo\<close> returns, whatever their \<open>total_duration_seconds\<close>, title, width, height,
  style and the other fields of their segments, and whatever the collaborators do.
\<close>

theorem renderVideo_duration_depends_only_on:
  "fps request = fps request' \<and>
   map duration_seconds (segments request) = map duration_seconds (segments request') \<and>
   snd (renderVideo env request) = Inr result \<and> snd (renderVideo env' request') = Inr result'
   \<longrightarrow> durationSeconds result = durationSeconds result'"
proof
  assume h: "fps request = fps request' \<and>
   map duration_seconds (segments request) = map duration_seconds (segments request') \<and>
   snd (renderVideo env request) = Inr result \<and> snd (renderVideo env' request') = Inr result'"
  then have "totalDurationFrames (fps request) (segments request) =
      totalDurationFrames (fps request') (segments request')"
    by (simp add: totalDurationFrames_durations)
  then show "durationSeconds result = durationSeconds result'"
    using h renderVideo_result [of env request result]
      renderVideo_result [of env' request' result'] by simp
qed

lemma other_durations: "map duration_seconds (segments (other_request f)) = [5, 4, 6]"
  by (simp add: other_request_def example_segments_def example_segment_def)

theorem renderVideo_duration_depends_only_on_witness:
  "fps (example_request 30) = fps (other_request 30) \<and>
   map duration_seconds (segments (example_request 30)) =
     map duration_seconds (segments (other_request 30)) \<and>
   total_duration_seconds (example_request 30) \<noteq> total_duration_seconds (other_request 30) \<and>
   snd (renderVideo env_ok (example_request 30)) =
     Inr \<lparr>outputPath = ''out/job-1.mp4'', durationSeconds = Finite 15\<rparr> \<and>
   snd (renderVideo env_ok (other_request 30)) =
     Inr \<lparr>outputPath = ''out/job-2.mp4'', durationSeconds = Finite 15\<rparr> \<and>
   durationSeconds \<lparr>outputPath = ''out/job-1.mp4'', durationSeconds = Finite 15\<rparr> =
     durationSeconds \<lparr>outputPath = ''out/job-2.mp4'', durationSeconds = Finite 15\<rparr>"
proof -
  have f: "fps (example_request 30) = fps (other_request 30)"
    by (simp add: example_request_def other_request_def)
  have d: "map duration_seconds (segments (example_request 30)) =
     map duration_seconds (segments (other_request 30))"
    by (simp add: other_durations) (simp add: example_request_def example_durations)
  have t: "total_duration_seconds (example_request 30) \<noteq>
      total_duration_seconds (other_request 30)"
    by (simp add: example_request_def other_request_def)
  have r: "snd (renderVideo env_ok (example_request 30)) =
     Inr \<lparr>outputPath = ''out/job-1.mp4'', durationSeconds = Finite 15\<rparr>"
    by (simp add: renderVideo_env_ok) (simp add: example_request_def total_30 fl_15)
  have "totalDurationFrames 30 (segments (other_request 30)) = Finite 450"
    using total_5_4_6 [OF other_durations, of 30 30] by simp
  then have r': "snd (renderVideo env_ok (other_request 30)) =
     Inr \<lparr>outputPath = ''out/job-2.mp4'', durationSeconds = Finite 15\<rparr>"
    by (simp add: renderVideo_env_ok) (simp add: other_request_def fl_15)
  show ?thesis
    using f d t r r' renderVideo_duration_depends_only_on [of "example_request 30"
        "other_request 30" env_ok
        "\<lparr>outputPath = ''out/job-1.mp4'', durationSeconds = Finite 15\<rparr>" env_ok
        "\<lparr>outputPath = ''out/job-2.mp4'', durationSeconds = Finite 15\<rparr>"]
    by simp
qed

lemma no_progress_onProgress:
  "filter (\<lambda>l. \<not> is_progress l) (concat (map (onProgress j) ps)) = []"
  by (induction ps) (simp_all add: onProgress_def is_progress_def)

lemma no_progress_onProgress_esm:
  "filter (\<lambda>l. \<not> is_progress l) (concat (map (onProgress_esm j) ps)) = []"
  by (induction ps) (simp_all add: onProgress_esm_def is_progress_def Let_def split: double.splits)

text \<open>
  C8. On a request on which both versions of \<open>renderVideo\<close> return, they return the same
  \<open>RenderResult\<close>. They differ in the module path and the progress lines only: when
  the two ways of finding \<^verbatim>\<open>__dirname\<close> agree, the outcomes are the same, errors
  included, and so is the console once the progress lines are left out.
\<close>

theorem renderVideo_versions_agree:
  "(snd (renderVideo env request) = Inr result \<and> snd (renderVideo_esm env request) = Inr result'
      \<longrightarrow> result = result') \<and>
   (path_dirname env (fileURLToPath env (import_meta_url env)) = dirname_global env \<longrightarrow>
      snd (renderVideo_esm env request) = snd (renderVideo env request) \<and>
      filter (\<lambda>l. \<not> is_progress l) (fst (renderVideo_esm env request)) =
        filter (\<lambda>l. \<not> is_progress l) (fst (renderVideo env request)))"
proof (intro conjI impI)
  assume "snd (renderVideo env request) = Inr result \<and> snd (renderVideo_esm env request) = Inr result'"
  then show "result = result'"
    using renderVideo_result [of env request result]
      renderVideo_esm_result [of env request result'] by simp
next
  assume d: "path_dirname env (fileURLToPath env (import_meta_url env)) = dirname_global env"
  show "snd (renderVideo_esm env request) = snd (renderVideo env request)"
    using d by (simp add: renderVideo_def renderVideo_esm_def Let_def split: sum.splits prod.splits)
  show "filter (\<lambda>l. \<not> is_progress l) (fst (renderVideo_esm env request)) =
        filter (\<lambda>l. \<not> is_progress l) (fst (renderVideo env request))"
    using d by (simp add: renderVideo_def renderVideo_esm_def Let_def no_progress_onProgress
        no_progress_onProgress_esm split: sum.splits prod.splits)
qed

theorem renderVideo_versions_agree_witness:
  "snd (renderVideo env_ok (example_request 30)) =
     Inr \<lparr>outputPath = ''out/job-1.mp4'', durationSeconds = Finite 15\<rparr>
   \<and> snd (renderVideo_esm env_ok (example_request 30)) =
     Inr \<lparr>outputPath = ''out/job-1.mp4'', durationSeconds = Finite 15\<rparr>
   \<and> path_dirname env_ok (fileURLToPath env_ok (import_meta_url env_ok)) = dirname_global env_ok
   \<and> snd (renderVideo_esm env_ok (example_request 30)) = snd (renderVideo env_ok (example_request 30))
   \<and> filter (\<lambda>l. \<not> is_progress l) (fst (renderVideo_esm env_ok (example_request 30))) =
        filter (\<lambda>l. \<not> is_progress l) (fst (renderVideo env_ok (example_request 30)))"
proof -
  have r: "snd (renderVideo env_ok (example_request 30)) =
     Inr \<lparr>outputPath = ''out/job-1.mp4'', durationSeconds = Finite 15\<rparr>"
    by (simp add: renderVideo_env_ok) (simp add: example_request_def total_30 fl_15)
  have r': "snd (renderVideo_esm env_ok (example_request 30)) =
     Inr \<lparr>outputPath = ''out/job-1.mp4'', durationSeconds = Finite 15\<rparr>"
    by (simp add: renderVideo_esm_env_ok) (simp add: example_request_def total_30 fl_15)
  have d: "path_dirname env_ok (fileURLToPath env_ok (import_meta_url env_ok)) = dirname_global env_ok"
    by (simp add: env_ok_def)
  show ?thesis
    using r r' d renderVideo_versions_agree [of env_ok "example_request 30"
        "\<lparr>outputPath = ''out/job-1.mp4'', durationSeconds = Finite 15\<rparr>"
        "\<lparr>outputPath = ''out/job-1.mp4'', durationSeconds = Finite 15\<rparr>"]
    by simp
qed

section \<open>Properties of the composition\<close>

lemma length_map_segments: "length (map_segments f st c i segs) = length segs"
  by (induction segs arbitrary: c i) (simp_all add: Let_def)

lemma seq_from_map_segments:
  "n < length segs \<Longrightarrow>
   seq_from (map_segments f st c i segs ! n) =
     foldl (\<lambda>total seg. js_add total (Math_round (js_mul (duration_seconds seg) f))) c
       (take n segs)"
proof (induction segs arbitrary: c i n)
  case Nil
  then show ?case by simp
next
  case (Cons s segs)
  then show ?case by (cases n) (simp_all add: Let_def)
qed

lemma seq_duration_map_segments:
  "n < length segs \<Longrightarrow>
   seq_durationInFrames (map_segments f st c i segs ! n) =
     Math_round (js_mul (duration_seconds (segs ! n)) f)"
proof (induction segs arbitrary: c i n)
  case Nil
  then show ?case by simp
next
  case (Cons s segs)
  then show ?case by (cases n) (simp_all add: Let_def)
qed

lemma seq_audio_map_segments:
  "n < length segs \<Longrightarrow>
   seq_audio (map_segments f st c i segs ! n) =
     (case audio_path (segs ! n) of
        None \<Rightarrow> None
      | Some p \<Rightarrow> if p = [] then None else Some \<lparr>src = p, volume = 1\<rparr>)"
proof (induction segs arbitrary: c i n)
  case Nil
  then show ?case by simp
next
  case (Cons s segs)
  then show ?case by (cases n) (simp_all add: Let_def)
qed


text \<open>
  What the component does: one Sequence per segment, the \<open>n\<close>-th lasting
  \<open>round(duration_seconds * 30)\<close> frames and starting at the sum of the rounded durations
  before it, with the segment's audio as its child. The 30 is the component's own.
\<close>

lemma composition_timing_at_30:
  "n < length (props_segments props) \<Longrightarrow>
     length (TeacherTrainingVideo props) = length (props_segments props) \<and>
     seq_durationInFrames (TeacherTrainingVideo props ! n) =
       Math_round (js_mul (duration_seconds (props_segments props ! n)) 30) \<and>
     seq_from (TeacherTrainingVideo props ! n) =
       totalDurationFrames 30 (take n (props_segments props)) \<and>
     seq_audio (TeacherTrainingVideo props ! n) =
       (case audio_path (props_segments props ! n) of
          None \<Rightarrow> None
        | Some p \<Rightarrow> if p = [] then None else Some \<lparr>src = p, volume = 1\<rparr>)"
  by (simp add: TeacherTrainingVideo_def length_map_segments seq_from_map_segments
      seq_duration_map_segments seq_audio_map_segments totalDurationFrames_def)

lemma example_composition:
  "map timing (TeacherTrainingVideo example_props) =
     [(Finite 0, Finite 150), (Finite 150, Finite 120), (Finite 270, Finite 180)]"
proof -
  have "js_mul 5 30 = Finite 150" "js_mul 4 30 = Finite 120" "js_mul 6 30 = Finite 180"
    using js_mul_of_int [of 5 30] js_mul_of_int [of 4 30] js_mul_of_int [of 6 30] by simp_all
  moreover have "fl 150 = Finite 150" "fl 270 = Finite 270"
    using fl_of_int [of 150] fl_of_int [of 270] by simp_all
  ultimately show ?thesis
    by (simp add: TeacherTrainingVideo_def example_props_def example_segments_def
        example_segment_def timing_def Let_def)
qed

text \<open>
  C1, at a request for one segment of 5 seconds at 60 frames per second. \<open>renderVideo\<close>
  asks Remotion for a video of \<open>round(5 * 60) = 300\<close> frames at 60 frames per second and
  reports 5 seconds, while the composition it renders gives the segment a Sequence of
  \<open>round(5 * 30) = 150\<close> frames: the segment does not occupy \<open>round(duration_seconds *
  fps)\<close> frames of the rendered video.
\<close>

theorem composition_ignores_request_fps:
  "fps request_60 = 60 \<and> map duration_seconds (segments request_60) = [5] \<and>
   snd (renderVideo (env_expecting (Finite 300) 60) request_60) =
     Inr \<lparr>outputPath = ''out/job-1.mp4'', durationSeconds = Finite 5\<rparr> \<and>
   map timing (TeacherTrainingVideo
       \<lparr>props_title = title request_60, props_segments = segments request_60,
        props_style = DEFAULT_STYLE\<rparr>) = [(Finite 0, Finite 150)] \<and>
   Math_round (js_mul 5 (fps request_60)) = Finite 300"
proof -
  have m60: "js_mul 5 60 = Finite 300" and m30: "js_mul 5 30 = Finite 150"
    using js_mul_of_int [of 5 60] js_mul_of_int [of 5 30] by simp_all
  have a: "fl 300 = Finite 300" and b: "fl 5 = Finite 5" and c: "fl 150 = Finite 150"
    using fl_of_int [of 300] fl_of_int [of 5] fl_of_int [of 150] by simp_all
  have t: "totalDurationFrames 60 five_seconds = Finite 300"
    by (simp add: totalDurationFrames_def five_seconds_def example_segment_def m60 a)
  have r: "snd (renderVideo (env_expecting (Finite 300) 60) request_60) =
     Inr \<lparr>outputPath = ''out/job-1.mp4'', durationSeconds = Finite 5\<rparr>"
    by (simp add: renderVideo_def env_expecting_def env_ok_def Let_def request_60_def
        example_request_def t b)
  have s: "map timing (TeacherTrainingVideo
       \<lparr>props_title = title request_60, props_segments = segments request_60,
        props_style = DEFAULT_STYLE\<rparr>) = [(Finite 0, Finite 150)]"
    by (simp add: TeacherTrainingVideo_def request_60_def five_seconds_def example_segment_def
        timing_def Let_def m30)
  show ?thesis
    using r s by (simp add: request_60_def example_request_def five_seconds_def
        example_segment_def m60)
qed

section \<open>Properties of the slide\<close>



section \<open>Properties of the HTTP endpoint\<close>


















section \<open>Properties of the persisted schema\<close>

lemmas migration_defs = migrated_def migration_001_def migration_002_def migration_003_def
  empty_database_def type_exists_def col_def

lemma migrated_enums:
  "enum_members ''job_status'' = Some [''pending'', ''processing'', ''completed'', ''failed'']"
  "enum_members ''job_stage'' = Some [''extract'', ''generate'', ''images'', ''tts'', ''render'']"
  by (simp_all add: enum_members_def migration_defs)

text \<open>
  C6, on the migrations as they run. The stage enumeration has exactly the five members
  extract, generate, images, tts and render; the status enumeration has the four members
  pending, processing, completed and failed, and \<open>cancelled\<close> is not among them.
\<close>

theorem job_status_enum_lacks_cancelled:
  "enum_members ''job_status'' = Some [''pending'', ''processing'', ''completed'', ''failed''] \<and>
   ''cancelled'' \<notin> set [''pending'', ''processing'', ''completed'', ''failed''] \<and>
   enum_members ''job_stage'' = Some [''extract'', ''generate'', ''images'', ''tts'', ''render'']"
  by (simp add: migrated_enums)

lemma jobs_column_names:
  "column_names ''jobs'' =
     Some [''id'', ''created_at'', ''updated_at'', ''completed_at'', ''status'',
           ''current_stage'', ''stage_progress'', ''original_filename'', ''pdf_path'',
           ''timeline_path'', ''audio_path'', ''video_path'', ''video_duration_seconds'',
           ''slide_count'', ''error_message'', ''error_stage'', ''retry_count'',
           ''stage_started_at'', ''stage_durations'', ''cancel_requested'']"
  by (simp add: column_names_def migration_defs)

lemma describe_id: "describe ''jobs'' ''id'' = Some (VARCHAR 36, False, True, None)"
  by (simp add: describe_def migration_defs)

lemma describe_status:
  "describe ''jobs'' ''status'' =
     Some (EnumType ''job_status'', True, False, Some (DefaultString ''pending''))"
  by (simp add: describe_def migration_defs)

lemma describe_retry_count:
  "describe ''jobs'' ''retry_count'' = Some (INTEGER, False, False, Some (DefaultInt 0))"
  by (simp add: describe_def migration_defs)

lemma describe_stage_durations:
  "describe ''jobs'' ''stage_durations'' = Some (JSONB, False, False, Some (DefaultString ''{}''))"
  by (simp add: describe_def migration_defs)

lemma describe_cancel_requested:
  "describe ''jobs'' ''cancel_requested'' = Some (INTEGER, False, False, Some (DefaultInt 0))"
  by (simp add: describe_def migration_defs)

text \<open>
  C7. The \<open>jobs\<close> table has exactly one column per Job field of section 3 and no other;
  \<open>id\<close> is its primary key (one row per job); \<open>status\<close> defaults to \<open>pending\<close>,
  \<open>retry_count\<close> to 0, \<open>stage_durations\<close> to the empty JSON object \<^verbatim>\<open>{}\<close>, and
  \<open>cancel_requested\<close>, an integer column read as a boolean, to 0, which is false.
\<close>

theorem jobs_table_has_every_field:
  "map_option (\<lambda>names. list_all (\<lambda>f. f \<in> set names) job_fields) (column_names ''jobs'')
     = Some True \<and>
   map_option (\<lambda>names. list_all (\<lambda>n. n \<in> set job_fields) names) (column_names ''jobs'')
     = Some True \<and>
   map_option distinct (column_names ''jobs'') = Some True \<and>
   describe ''jobs'' ''id'' = Some (VARCHAR 36, False, True, None) \<and>
   describe ''jobs'' ''status'' =
     Some (EnumType ''job_status'', True, False, Some (DefaultString ''pending'')) \<and>
   describe ''jobs'' ''retry_count'' = Some (INTEGER, False, False, Some (DefaultInt 0)) \<and>
   describe ''jobs'' ''stage_durations'' =
     Some (JSONB, False, False, Some (DefaultString ''{}'')) \<and>
   describe ''jobs'' ''cancel_requested'' = Some (INTEGER, False, False, Some (DefaultInt 0)) \<and>
   sql_boolean 0 = Some False"
proof -
  have "map_option (\<lambda>names. list_all (\<lambda>f. f \<in> set names) job_fields) (column_names ''jobs'')
     = Some True"
    by (simp add: jobs_column_names job_fields_def)
  moreover have "map_option (\<lambda>names. list_all (\<lambda>n. n \<in> set job_fields) names) (column_names ''jobs'')
     = Some True"
    by (simp add: jobs_column_names job_fields_def)
  moreover have "map_option distinct (column_names ''jobs'') = Some True"
    by (simp add: jobs_column_names)
  ultimately show ?thesis
    by (simp add: describe_id describe_status describe_retry_count describe_stage_durations
        describe_cancel_requested sql_boolean_def)
qed

section \<open>Properties of the generate stage\<close>

lemma not_validate_timeline:
  "(\<not> validate_timeline cfg timeline) =
     (\<not> length timeline > 0 \<or> list_ex (\<lambda>seg. duration_seconds seg < 0) timeline \<or>
      \<not> strictly_increasing (map start_time_seconds timeline) \<or>
      sum_list (map duration_seconds timeline) < min_total_duration cfg \<or>
      max_total_duration cfg < sum_list (map duration_seconds timeline))"
  by (auto simp: validate_timeline_def list_all_iff list_ex_iff not_le)

text \<open>
  C3. When the executor runs on a job that has no timeline yet and the returned timeline
  has no segment, a negative duration, start times that are not strictly increasing, or
  a total duration outside the band, the job becomes failed with \<open>error_stage = generate\<close>
  and an error message, \<open>timeline_path\<close> stays unset, and a further invocation changes
  nothing.
\<close>

theorem invalid_timeline_fails_job:
  "\<not> is_terminal (job_status job) \<and> \<not> cancel_requested job \<and> timeline_path job = None \<and>
   (\<not> length timeline > 0 \<or> list_ex (\<lambda>seg. duration_seconds seg < 0) timeline \<or>
    \<not> strictly_increasing (map start_time_seconds timeline) \<or>
    sum_list (map duration_seconds timeline) < min_total_duration cfg \<or>
    max_total_duration cfg < sum_list (map duration_seconds timeline))
   \<longrightarrow>
     job_status (invoke_generate cfg job timeline path) = Failed \<and>
     error_stage (invoke_generate cfg job timeline path) = Some Generate \<and>
     error_message (invoke_generate cfg job timeline path) \<noteq> None \<and>
     timeline_path (invoke_generate cfg job timeline path) = None \<and>
     invoke_generate cfg (invoke_generate cfg job timeline path) timeline' path' =
       invoke_generate cfg job timeline path"
proof
  assume h: "\<not> is_terminal (job_status job) \<and> \<not> cancel_requested job \<and> timeline_path job = None \<and>
   (\<not> length timeline > 0 \<or> list_ex (\<lambda>seg. duration_seconds seg < 0) timeline \<or>
    \<not> strictly_increasing (map start_time_seconds timeline) \<or>
    sum_list (map duration_seconds timeline) < min_total_duration cfg \<or>
    max_total_duration cfg < sum_list (map duration_seconds timeline))"
  then have "\<not> validate_timeline cfg timeline"
    by (simp only: not_validate_timeline)
  then have e: "generate_executor cfg timeline path =
      Inl \<lparr>retryable = False, err_message = ''timeline failed validation''\<rparr>"
    by (simp add: generate_executor_def)
  have j: "invoke_generate cfg job timeline path =
      job\<lparr>job_status := Failed, current_stage := None,
          error_message := Some ''timeline failed validation'',
          error_stage := Some Generate\<rparr>"
    using h e by (simp add: invoke_generate_def)
  show "job_status (invoke_generate cfg job timeline path) = Failed \<and>
     error_stage (invoke_generate cfg job timeline path) = Some Generate \<and>
     error_message (invoke_generate cfg job timeline path) \<noteq> None \<and>
     timeline_path (invoke_generate cfg job timeline path) = None \<and>
     invoke_generate cfg (invoke_generate cfg job timeline path) timeline' path' =
       invoke_generate cfg job timeline path"
    using h by (simp add: j) (simp add: invoke_generate_def is_terminal_def)
qed

theorem invalid_timeline_fails_job_witness:
  "\<not> is_terminal (job_status example_job) \<and> \<not> cancel_requested example_job \<and>
   timeline_path example_job = None \<and>
   sum_list (map duration_seconds example_segments) < min_total_duration example_config \<and>
   job_status (invoke_generate example_config example_job example_segments ''job-1/timeline.json'')
     = Failed \<and>
   error_stage (invoke_generate example_config example_job example_segments ''job-1/timeline.json'')
     = Some Generate \<and>
   timeline_path (invoke_generate example_config example_job example_segments ''job-1/timeline.json'')
     = None"
proof -
  have j: "\<not> is_terminal (job_status example_job) \<and> \<not> cancel_requested example_job \<and>
      timeline_path example_job = None"
    by (simp add: example_job_def is_terminal_def)
  have b: "sum_list (map duration_seconds example_segments) < min_total_duration example_config"
    by (simp add: example_durations example_config_def)
  show ?thesis
    using j b invalid_timeline_fails_job [of example_job example_segments example_config
        "''job-1/timeline.json''"]
    by simp
qed

section \<open>Properties of the render stage\<close>







end
